theory Spec2Isabelle
  imports Main "HOL-Library.Sublist"
begin

section \<open>Data model\<close>

text \<open>
  The file picker: the dialog component (its script: properties, refs, computed values and
  handlers) and the classes \<^verbatim>\<open>FilePicker\<close> and \<^verbatim>\<open>FilePickerBuilder\<close>.  JavaScript strings are
  modelled as \<^typ>\<open>string\<close>; a value that may be \<^verbatim>\<open>undefined\<close> (or \<^verbatim>\<open>null\<close>) is an
  \<^typ>\<open>'a option\<close>.
\<close>

datatype View = Files | Favorites | Recent

datatype FileType = File | Folder

text \<open>The fields of a \<^verbatim>\<open>Node\<close> of \<^verbatim>\<open>@nextcloud/files\<close> that the picker reads.\<close>

record Node =
  basename :: string
  ftype :: FileType
  mime :: "string option"
  path :: string

subsection \<open>JavaScript helpers\<close>

text \<open>\<^verbatim>\<open>a || b\<close> on an optional string: \<^verbatim>\<open>undefined\<close> and the empty string are falsy.\<close>

definition or_else :: "string option \<Rightarrow> string \<Rightarrow> string" where
  "or_else a b = (case a of None \<Rightarrow> b | Some v \<Rightarrow> if v = [] then b else v)"

text \<open>\<^verbatim>\<open>xs[0]\<close>: \<^verbatim>\<open>undefined\<close> on an empty array.\<close>

definition first :: "'a list \<Rightarrow> 'a option" where
  "first xs = (case xs of [] \<Rightarrow> None | x # _ \<Rightarrow> Some x)"

text \<open>\<^verbatim>\<open>s.startsWith(p)\<close>\<close>

fun startsWith :: "string \<Rightarrow> string \<Rightarrow> bool" where
  "startsWith s [] = True"
| "startsWith [] (p # ps) = False"
| "startsWith (c # cs) (p # ps) = (c = p \<and> startsWith cs ps)"

text \<open>\<^verbatim>\<open>s.includes(q)\<close>: \<^verbatim>\<open>q\<close> occurs in \<^verbatim>\<open>s\<close> as a contiguous run.\<close>

fun includes_str :: "string \<Rightarrow> string \<Rightarrow> bool" where
  "includes_str [] q = (q = [])"
| "includes_str (c # cs) q = (startsWith (c # cs) q \<or> includes_str cs q)"

subsection \<open>Component properties and state\<close>

text \<open>
  A button (\<^verbatim>\<open>IFilePickerButton\<close>).  The caller's callback is run for its effect only; the
  model keeps whether it returns (\<open>True\<close>) or throws (\<open>False\<close>).
\<close>

record Button =
  label :: string
  callback :: "Node list \<Rightarrow> bool"

type_synonym ButtonFactory = "Node list \<Rightarrow> string \<Rightarrow> View \<Rightarrow> Button list"

text \<open>\<^verbatim>\<open>IFilePickerButton[] | IFilePickerButtonFactory\<close>; \<open>Factory\<close> is the case
  \<^verbatim>\<open>typeof buttons === 'function'\<close>.\<close>

datatype Buttons = Static "Button list" | Factory ButtonFactory

text \<open>The properties of the component after \<^verbatim>\<open>withDefaults\<close>.\<close>

record Props =
  props_buttons :: Buttons
  props_name :: string
  props_allowPickDirectory :: bool
  props_container :: string
  props_filterFn :: "(Node \<Rightarrow> bool) option"
  props_mimetypeFilter :: "string list"
  props_multiselect :: bool
  props_path :: "string option"

text \<open>
  The reactive state of the component: its own refs, the refs it gets from the composables
  (\<open>files\<close> of \<^verbatim>\<open>useDAVFiles\<close>, \<open>showHiddenFiles\<close> of \<^verbatim>\<open>useFilesSettings\<close>),
  \<^verbatim>\<open>window.sessionStorage\<close>, and the wrapped button callbacks that are suspended at
  \<^verbatim>\<open>await getFile(currentPath.value)\<close>, each with its button and the path it looks up.
\<close>

record State =
  currentView :: View
  selectedFiles :: "Node list"
  savedPath :: string
  navigatedPath :: "string option"
  filterString :: string
  files :: "Node list"
  showHiddenFiles :: bool
  sessionStorage :: "string \<rightharpoonup> string"
  awaitingGetFile :: "(Button \<times> string) list"

section \<open>The filter pipeline\<close>

text \<open>
  \<^verbatim>\<open>filteredFiles\<close>.  Two functions it calls are parameters: \<^verbatim>\<open>toLowerCase\<close>, the built-in
  \<^verbatim>\<open>String.prototype.toLowerCase\<close>, and \<^verbatim>\<open>isSupportedMimeType\<close>, which comes from
  \<^verbatim>\<open>useMimeFilter\<close> applied to the \<^verbatim>\<open>mimetypeFilter\<close> property and takes the allow-list and the
  mime type here.
\<close>

definition filteredFiles ::
  "(string \<Rightarrow> string) \<Rightarrow> (string list \<Rightarrow> string \<Rightarrow> bool) \<Rightarrow> Props \<Rightarrow> State \<Rightarrow> Node list" where
  "filteredFiles toLowerCase isSupportedMimeType props s =
     (let filtered = files s;
          filtered = (if \<not> showHiddenFiles s
                      then filter (\<lambda>file. \<not> startsWith (basename file) ''.'') filtered
                      else filtered);
          filtered = (if length (props_mimetypeFilter props) > 0
                      then filter (\<lambda>file. ftype file = Folder \<or>
                             (case mime file of None \<Rightarrow> False
                              | Some m \<Rightarrow> m \<noteq> [] \<and> isSupportedMimeType (props_mimetypeFilter props) m))
                             filtered
                      else filtered);
          filtered = (if filterString s \<noteq> []
                      then filter (\<lambda>file. includes_str (toLowerCase (basename file))
                                                    (toLowerCase (filterString s))) filtered
                      else filtered);
          filtered = (case props_filterFn props of
                        Some filterFn \<Rightarrow> filter (\<lambda>f. filterFn f) filtered
                      | None \<Rightarrow> filtered)
      in filtered)"


text \<open>
  Modelled from the spec: \<^verbatim>\<open>isSupportedMimeType\<close> of the composable \<^verbatim>\<open>useMimeFilter\<close>
  (\<^verbatim>\<open>composables/mime\<close>), which is not among the sources.  The spec has: "pattern matching:
  exact match, or prefix match when pattern ends in \<^verbatim>\<open>/*\<close>".
\<close>

definition endsWith :: "string \<Rightarrow> string \<Rightarrow> bool" where
  "endsWith s p = startsWith (rev s) (rev p)"

definition matchesPattern :: "string \<Rightarrow> string \<Rightarrow> bool" where
  "matchesPattern pattern m =
     (m = pattern \<or> (endsWith pattern ''/*'' \<and> startsWith m (butlast pattern)))"

definition isSupportedMimeType :: "string list \<Rightarrow> string \<Rightarrow> bool" where
  "isSupportedMimeType allowed m = list_ex (\<lambda>pattern. matchesPattern pattern m) allowed"

subsection \<open>The pipeline in the words of the specification\<close>

text \<open>
  The four steps of the specification, each a function on entry lists.  An entry without a
  mime type (undefined or empty) matches no pattern.  A basename contains a query, ignoring
  case, when the lower-cased query is a contiguous part of the lower-cased basename; the
  lower-casing is that of the language and is a parameter.
\<close>

definition hasSupportedMime :: "(string list \<Rightarrow> string \<Rightarrow> bool) \<Rightarrow> string list \<Rightarrow> Node \<Rightarrow> bool" where
  "hasSupportedMime matcher allowed e =
     (case mime e of None \<Rightarrow> False | Some m \<Rightarrow> m \<noteq> [] \<and> matcher allowed m)"

definition dropHidden :: "bool \<Rightarrow> Node list \<Rightarrow> Node list" where
  "dropHidden showHidden es =
     (if showHidden then es else filter (\<lambda>e. \<not> prefix ''.'' (basename e)) es)"

definition dropUnsupported ::
  "(string list \<Rightarrow> string \<Rightarrow> bool) \<Rightarrow> string list \<Rightarrow> Node list \<Rightarrow> Node list" where
  "dropUnsupported matcher allowed es =
     (if allowed = [] then es
      else filter (\<lambda>e. \<not> (ftype e \<noteq> Folder \<and> \<not> hasSupportedMime matcher allowed e)) es)"

definition keepMatching :: "(string \<Rightarrow> string) \<Rightarrow> string \<Rightarrow> Node list \<Rightarrow> Node list" where
  "keepMatching lower query es =
     (if query = [] then es
      else filter (\<lambda>e. sublist (lower query) (lower (basename e))) es)"

definition keepAccepted :: "(Node \<Rightarrow> bool) option \<Rightarrow> Node list \<Rightarrow> Node list" where
  "keepAccepted predicate es = (case predicate of None \<Rightarrow> es | Some accepts \<Rightarrow> filter accepts es)"

text \<open>The four conditions as one conjunction on a single entry.\<close>

definition isVisible ::
  "(string \<Rightarrow> string) \<Rightarrow> (string list \<Rightarrow> string \<Rightarrow> bool) \<Rightarrow> bool \<Rightarrow> string list \<Rightarrow> string
     \<Rightarrow> (Node \<Rightarrow> bool) option \<Rightarrow> Node \<Rightarrow> bool" where
  "isVisible lower matcher showHidden allowed query predicate e =
     ((showHidden \<or> \<not> prefix ''.'' (basename e))
      \<and> (allowed = [] \<or> ftype e = Folder \<or> hasSupportedMime matcher allowed e)
      \<and> (query = [] \<or> sublist (lower query) (lower (basename e)))
      \<and> (case predicate of None \<Rightarrow> True | Some accepts \<Rightarrow> accepts e))"

section \<open>Navigation state\<close>

text \<open>The key of the persisted last path in \<^verbatim>\<open>window.sessionStorage\<close>.\<close>

definition LastPath :: string where
  "LastPath = ''NC.FilePicker.LastPath''"

text \<open>
  The state when the component is set up, over the session storage found.  The listing of
  \<^verbatim>\<open>useDAVFiles\<close> is empty until it is loaded, and \<^verbatim>\<open>useFilesSettings\<close> starts with hidden
  files not shown.  No button callback is suspended.
\<close>

definition initial_state :: "(string \<rightharpoonup> string) \<Rightarrow> State" where
  "initial_state storage =
     \<lparr>currentView = Files,
      selectedFiles = [],
      savedPath = or_else (storage LastPath) ''/'',
      navigatedPath = None,
      filterString = [],
      files = [],
      showHiddenFiles = False,
      sessionStorage = storage,
      awaitingGetFile = []\<rparr>"

text \<open>The getter of the computed \<^verbatim>\<open>currentPath\<close>.\<close>

definition currentPath :: "Props \<Rightarrow> State \<Rightarrow> string" where
  "currentPath props s =
     (if currentView s = Files
      then or_else (navigatedPath s) (or_else (props_path props) (savedPath s))
      else ''/'')"

text \<open>The setter of the computed \<^verbatim>\<open>currentPath\<close>.\<close>

definition set_currentPath :: "Props \<Rightarrow> string \<Rightarrow> State \<Rightarrow> State" where
  "set_currentPath props p s =
     (let s = (if props_path props = None
               then s\<lparr>sessionStorage := (sessionStorage s)(LastPath \<mapsto> p)\<rparr>
               else s);
          s = s\<lparr>navigatedPath := Some p\<rparr>;
          s = s\<lparr>selectedFiles := []\<rparr>
      in s)"

section \<open>Buttons, closing and folder creation\<close>

datatype error = GetFileFailed | CreateDirectoryFailed | LoadFilesFailed

text \<open>
  The services of \<^verbatim>\<open>useDAVFiles\<close> that folder creation calls: \<^verbatim>\<open>client.createDirectory\<close> and
  \<^verbatim>\<open>loadFiles\<close>.  A rejected promise is an \<open>Inl\<close>.  \<open>createDirectory\<close> takes the current
  path and the name (joined below \<^verbatim>\<open>davRootPath\<close> in the source); \<open>loadFiles\<close> gives the
  listing for the view and path, which replaces \<open>files\<close>.  The third service, \<^verbatim>\<open>getFile\<close>,
  answers by an event of its own, see below.
\<close>

record Env =
  createDirectory :: "string \<Rightarrow> string \<Rightarrow> error + unit"
  loadFiles :: "View \<Rightarrow> string \<Rightarrow> error + Node list"

text \<open>What a handler does to the outside: events emitted, toasts, the console.\<close>

datatype Effect =
    EmitClose "Node list option"
  | EmitOnEventBus string "Node option"
  | ShowError string
  | ConsoleWarn string

text \<open>The buttons of \<^verbatim>\<open>dialogButtons\<close>, before their callbacks are wrapped.\<close>

definition dialogButtons :: "Props \<Rightarrow> State \<Rightarrow> Button list" where
  "dialogButtons props s =
     (case props_buttons props of
        Factory factory \<Rightarrow> factory (selectedFiles s) (currentPath props s) (currentView s)
      | Static buttons \<Rightarrow> buttons)"

text \<open>
  The end of the wrapped callback of a button, once the nodes are known:
  \<^verbatim>\<open>button.callback(nodes)\<close>, then \<^verbatim>\<open>emit('close', nodes)\<close>.  When the button's callback throws,
  the close event is not reached.
\<close>

definition callback_emit :: "Button \<Rightarrow> Node list \<Rightarrow> Effect list" where
  "callback_emit button nodes = (if callback button nodes then [EmitClose (Some nodes)] else [])"

text \<open>
  The wrapped callback of a button of \<^verbatim>\<open>dialogButtons\<close>, up to its end or to its \<^verbatim>\<open>await\<close>.
  With an empty selection in a picker that allows directories it calls \<^verbatim>\<open>getFile\<close> for the
  current path and is suspended until the lookup is settled.  Otherwise it runs to its end
  at once, with the selected files.
\<close>

definition button_callback :: "Props \<Rightarrow> State \<Rightarrow> Button \<Rightarrow> State \<times> Effect list" where
  "button_callback props s button =
     (if length (selectedFiles s) = 0 \<and> props_allowPickDirectory props
      then (s\<lparr>awaitingGetFile := awaitingGetFile s @ [(button, currentPath props s)]\<rparr>, [])
      else (s, callback_emit button (selectedFiles s)))"

text \<open>
  The lookup of the \<open>k\<close>-th suspended callback is settled, and the callback goes on: with
  the entry found as the only node, or, when \<^verbatim>\<open>getFile\<close> rejects, by throwing.
\<close>

definition getFile_settled :: "nat \<Rightarrow> error + Node \<Rightarrow> State \<Rightarrow> State \<times> Effect list" where
  "getFile_settled k result s =
     (if k < length (awaitingGetFile s)
      then (case result of
              Inl e \<Rightarrow>
                (s\<lparr>awaitingGetFile := take k (awaitingGetFile s) @ drop (Suc k) (awaitingGetFile s)\<rparr>,
                 [])
            | Inr directory \<Rightarrow>
                (s\<lparr>awaitingGetFile := take k (awaitingGetFile s) @ drop (Suc k) (awaitingGetFile s)\<rparr>,
                 callback_emit (fst (awaitingGetFile s ! k)) [directory]))
      else (s, []))"

definition handleClose :: "bool \<Rightarrow> Effect list" where
  "handleClose open = (if \<not> open then [EmitClose None] else [])"

definition onCreateFolder :: "Env \<Rightarrow> Props \<Rightarrow> string \<Rightarrow> State \<Rightarrow> State \<times> Effect list" where
  "onCreateFolder env props name s =
     (case createDirectory env (currentPath props s) name of
        Inl e \<Rightarrow> (s, [ConsoleWarn ''Could not create new folder'',
                      ShowError ''Could not create the new folder''])
      | Inr _ \<Rightarrow>
          (case loadFiles env (currentView s) (currentPath props s) of
             Inl e \<Rightarrow> (s, [ConsoleWarn ''Could not create new folder'',
                           ShowError ''Could not create the new folder''])
           | Inr listing \<Rightarrow>
               (let s = s\<lparr>files := listing\<rparr>
                in (s, [EmitOnEventBus ''files:node:created''
                          (first (filter (\<lambda>file. basename file = name) (files s)))]))))"

text \<open>
  The events the component handles, each with the handler the template binds to it:
  \<^verbatim>\<open>update:open\<close> of the dialog, a click on the \<open>i\<close>-th dialog button, \<^verbatim>\<open>update:path\<close> of the
  breadcrumbs and of the file list (the latter also sets the view to \<^verbatim>\<open>files\<close>), the other
  \<^verbatim>\<open>.sync\<close> bindings, \<^verbatim>\<open>create-node\<close>, the two composables replacing their refs, and
  \<^verbatim>\<open>getFile\<close> settling the lookup of a suspended button callback.
  An event is handled whenever it arrives; which children are shown, and so which events
  can arrive, is left to the sequence of events.
\<close>

datatype Event =
    UpdateOpen bool
  | Click nat
  | BreadcrumbsUpdatePath string
  | FileListUpdatePath string
  | UpdateSelectedFiles "Node list"
  | UpdateCurrentView View
  | UpdateFilterString string
  | CreateNode string
  | FilesLoaded "Node list"
  | SettingsLoaded bool
  | GetFileSettled nat "error + Node"

fun handle :: "Env \<Rightarrow> Props \<Rightarrow> Event \<Rightarrow> State \<Rightarrow> State \<times> Effect list" where
  "handle env props (UpdateOpen open) s = (s, handleClose open)"
| "handle env props (Click i) s =
     (if i < length (dialogButtons props s)
      then button_callback props s (dialogButtons props s ! i)
      else (s, []))"
| "handle env props (BreadcrumbsUpdatePath p) s = (set_currentPath props p s, [])"
| "handle env props (FileListUpdatePath p) s =
     ((set_currentPath props p s)\<lparr>currentView := Files\<rparr>, [])"
| "handle env props (UpdateSelectedFiles nodes) s = (s\<lparr>selectedFiles := nodes\<rparr>, [])"
| "handle env props (UpdateCurrentView v) s = (s\<lparr>currentView := v\<rparr>, [])"
| "handle env props (UpdateFilterString q) s = (s\<lparr>filterString := q\<rparr>, [])"
| "handle env props (CreateNode name) s = onCreateFolder env props name s"
| "handle env props (FilesLoaded listing) s = (s\<lparr>files := listing\<rparr>, [])"
| "handle env props (SettingsLoaded b) s = (s\<lparr>showHiddenFiles := b\<rparr>, [])"
| "handle env props (GetFileSettled k result) s = getFile_settled k result s"

text \<open>The state after a sequence of events.\<close>

fun run :: "Env \<Rightarrow> Props \<Rightarrow> Event list \<Rightarrow> State \<Rightarrow> State" where
  "run env props [] s = s"
| "run env props (e # es) s = run env props es (fst (handle env props e s))"

text \<open>The payload of the first \<^verbatim>\<open>close\<close> event among the effects, if there is one.\<close>

fun closePayload :: "Effect list \<Rightarrow> Node list option option" where
  "closePayload [] = None"
| "closePayload (EmitClose payload # effects) = Some payload"
| "closePayload (_ # effects) = closePayload effects"

section \<open>The picker and its builder\<close>

text \<open>The private fields of class \<^verbatim>\<open>FilePicker\<close>.\<close>

record FilePicker =
  picker_title :: string
  picker_multiSelect :: bool
  picker_mimeTypeFilter :: "string list"
  picker_directoriesAllowed :: bool
  picker_buttons :: Buttons
  picker_path :: "string option"
  picker_filter :: "(Node \<Rightarrow> bool) option"
  picker_container :: "string option"

text \<open>The private fields of class \<^verbatim>\<open>FilePickerBuilder\<close>.\<close>

record FilePickerBuilder =
  builder_title :: string
  builder_multiSelect :: bool
  builder_mimeTypeFilter :: "string list"
  builder_directoriesAllowed :: bool
  builder_path :: "string option"
  builder_filter :: "(Node \<Rightarrow> bool) option"
  builder_buttons :: Buttons
  builder_container :: "string option"

text \<open>The properties as they are handed to the component, before \<^verbatim>\<open>withDefaults\<close>.\<close>

record RawProps =
  raw_buttons :: Buttons
  raw_name :: string
  raw_allowPickDirectory :: "bool option"
  raw_container :: "string option"
  raw_filterFn :: "(Node \<Rightarrow> bool) option"
  raw_mimetypeFilter :: "string list option"
  raw_multiselect :: "bool option"
  raw_path :: "string option"

definition withDefaults :: "RawProps \<Rightarrow> Props" where
  "withDefaults raw =
     \<lparr>props_buttons = raw_buttons raw,
      props_name = raw_name raw,
      props_allowPickDirectory = (case raw_allowPickDirectory raw of None \<Rightarrow> False | Some v \<Rightarrow> v),
      props_container = (case raw_container raw of None \<Rightarrow> ''body'' | Some v \<Rightarrow> v),
      props_filterFn = raw_filterFn raw,
      props_mimetypeFilter = (case raw_mimetypeFilter raw of None \<Rightarrow> [] | Some v \<Rightarrow> v),
      props_multiselect = (case raw_multiselect raw of None \<Rightarrow> True | Some v \<Rightarrow> v),
      props_path = raw_path raw\<rparr>"

text \<open>The constructor of \<^verbatim>\<open>FilePicker\<close>; the last three parameters are optional.\<close>

definition new_FilePicker ::
  "string \<Rightarrow> bool \<Rightarrow> string list \<Rightarrow> bool \<Rightarrow> Buttons \<Rightarrow> string option \<Rightarrow> (Node \<Rightarrow> bool) option
     \<Rightarrow> string option \<Rightarrow> FilePicker" where
  "new_FilePicker title multiSelect mimeTypeFilter directoriesAllowed buttons path' filter' container =
     \<lparr>picker_title = title,
      picker_multiSelect = multiSelect,
      picker_mimeTypeFilter = mimeTypeFilter,
      picker_directoriesAllowed = directoriesAllowed,
      picker_buttons = buttons,
      picker_path = path',
      picker_filter = filter',
      picker_container = container\<rparr>"

text \<open>The properties \<^verbatim>\<open>pick\<close> hands to \<^verbatim>\<open>spawnDialog\<close>.\<close>

definition pick_props :: "FilePicker \<Rightarrow> RawProps" where
  "pick_props this =
     \<lparr>raw_buttons = picker_buttons this,
      raw_name = picker_title this,
      raw_allowPickDirectory = Some (picker_directoriesAllowed this),
      raw_container = picker_container this,
      raw_filterFn = picker_filter this,
      raw_mimetypeFilter = Some (picker_mimeTypeFilter this),
      raw_multiselect = Some (picker_multiSelect this),
      raw_path = picker_path this\<rparr>"

text \<open>How the promise of \<^verbatim>\<open>pick\<close> is settled.\<close>

datatype PickResult =
    Resolved_paths "string list"
  | Resolved_path string
  | Rejected_FilePickerClosed

text \<open>The callback \<^verbatim>\<open>pick\<close> hands to \<^verbatim>\<open>spawnDialog\<close>, on the first argument of the close event.\<close>

definition onClose :: "FilePicker \<Rightarrow> Node list option \<Rightarrow> PickResult" where
  "onClose this nodes =
     (case nodes of
        None \<Rightarrow> Rejected_FilePickerClosed
      | Some ns \<Rightarrow>
          if length ns = 0 then Rejected_FilePickerClosed
          else if picker_multiSelect this then Resolved_paths (map path ns)
          else Resolved_path (or_else (map_option path (first ns)) ''/''))"

text \<open>
  Modelled from the spec: \<^verbatim>\<open>spawnDialog\<close> of \<^verbatim>\<open>utils/dialogs\<close>, which is not among the sources.
  It mounts the component with the properties and hands the payload of the component's
  \<^verbatim>\<open>close\<close> event to the callback; "the dialog closes at most once", so the first close event
  ends the session and later events are not seen.  \<open>None\<close>: no close event so far.
\<close>

fun spawnDialog ::
  "Env \<Rightarrow> Props \<Rightarrow> (Node list option \<Rightarrow> 'r) \<Rightarrow> State \<Rightarrow> Event list \<Rightarrow> 'r option" where
  "spawnDialog env props onClose' s [] = None"
| "spawnDialog env props onClose' s (e # es) =
     (case closePayload (snd (handle env props e s)) of
        Some payload \<Rightarrow> Some (onClose' payload)
      | None \<Rightarrow> spawnDialog env props onClose' (fst (handle env props e s)) es)"

text \<open>
  \<^verbatim>\<open>pick\<close>, over the session storage found and the events of the session: how the promise
  is settled, \<open>None\<close> while it is pending.
\<close>

definition pick :: "Env \<Rightarrow> (string \<rightharpoonup> string) \<Rightarrow> FilePicker \<Rightarrow> Event list \<Rightarrow> PickResult option" where
  "pick env storage this events =
     spawnDialog env (withDefaults (pick_props this)) (onClose this) (initial_state storage) events"

subsection \<open>The builder\<close>

text \<open>
  Each method gives the builder after the call and the warnings it wrote to the console.
\<close>

definition new_FilePickerBuilder :: "string \<Rightarrow> FilePickerBuilder" where
  "new_FilePickerBuilder title =
     \<lparr>builder_title = title,
      builder_multiSelect = False,
      builder_mimeTypeFilter = [],
      builder_directoriesAllowed = False,
      builder_path = None,
      builder_filter = None,
      builder_buttons = Static [],
      builder_container = None\<rparr>"

definition setContainer :: "string \<Rightarrow> FilePickerBuilder \<Rightarrow> FilePickerBuilder \<times> string list" where
  "setContainer container this = (this\<lparr>builder_container := Some container\<rparr>, [])"

definition setMultiSelect :: "bool \<Rightarrow> FilePickerBuilder \<Rightarrow> FilePickerBuilder \<times> string list" where
  "setMultiSelect ms this = (this\<lparr>builder_multiSelect := ms\<rparr>, [])"

definition setMimeTypeFilter :: "string list \<Rightarrow> FilePickerBuilder \<Rightarrow> FilePickerBuilder \<times> string list" where
  "setMimeTypeFilter filter' this = (this\<lparr>builder_mimeTypeFilter := filter'\<rparr>, [])"

definition addButton :: "Button \<Rightarrow> FilePickerBuilder \<Rightarrow> FilePickerBuilder \<times> string list" where
  "addButton button this =
     (case builder_buttons this of
        Factory factory \<Rightarrow>
          (this\<lparr>builder_buttons := Static ([] @ [button])\<rparr>,
           [''FilePicker buttons were set to factory, now overwritten with button object.''])
      | Static buttons \<Rightarrow> (this\<lparr>builder_buttons := Static (buttons @ [button])\<rparr>, []))"

definition setButtonFactory :: "ButtonFactory \<Rightarrow> FilePickerBuilder \<Rightarrow> FilePickerBuilder \<times> string list" where
  "setButtonFactory factory this = (this\<lparr>builder_buttons := Factory factory\<rparr>, [])"

definition allowDirectories :: "bool \<Rightarrow> FilePickerBuilder \<Rightarrow> FilePickerBuilder \<times> string list" where
  "allowDirectories allow this = (this\<lparr>builder_directoriesAllowed := allow\<rparr>, [])"

definition startAt :: "string \<Rightarrow> FilePickerBuilder \<Rightarrow> FilePickerBuilder \<times> string list" where
  "startAt path' this = (this\<lparr>builder_path := Some path'\<rparr>, [])"

definition setFilter :: "(Node \<Rightarrow> bool) \<Rightarrow> FilePickerBuilder \<Rightarrow> FilePickerBuilder \<times> string list" where
  "setFilter filter' this = (this\<lparr>builder_filter := Some filter'\<rparr>, [])"

text \<open>\<^verbatim>\<open>build\<close> calls the constructor with seven arguments: the container is left out.\<close>

definition build :: "FilePickerBuilder \<Rightarrow> FilePicker" where
  "build this =
     new_FilePicker (builder_title this) (builder_multiSelect this) (builder_mimeTypeFilter this)
       (builder_directoriesAllowed this) (builder_buttons this) (builder_path this)
       (builder_filter this) None"

section \<open>Concrete sessions\<close>

text \<open>The entries of scenario A of the specification.\<close>

definition git_folder :: Node where
  "git_folder = \<lparr>basename = ''.git'', ftype = Folder, mime = Some ''httpd/unix-directory'', path = ''/.git''\<rparr>"

definition readme_md :: Node where
  "readme_md = \<lparr>basename = ''readme.md'', ftype = File, mime = Some ''text/plain'', path = ''/readme.md''\<rparr>"

definition photo_png :: Node where
  "photo_png = \<lparr>basename = ''photo.png'', ftype = File, mime = Some ''image/png'', path = ''/photo.png''\<rparr>"

definition documents_folder :: Node where
  "documents_folder =
     \<lparr>basename = ''Documents'', ftype = Folder, mime = Some ''httpd/unix-directory'', path = ''/Documents''\<rparr>"

definition choose_button :: Button where
  "choose_button = \<lparr>label = ''Choose'', callback = (\<lambda>nodes. True)\<rparr>"

definition move_factory :: ButtonFactory where
  "move_factory = (\<lambda>nodes p v. [\<lparr>label = ''Move to '' @ p, callback = (\<lambda>nodes. True)\<rparr>])"

text \<open>A store where creating a directory succeeds.\<close>

definition dav :: Env where
  "dav =
     \<lparr>createDirectory = (\<lambda>p name. Inr ()),
      loadFiles = (\<lambda>v p. Inr [readme_md, photo_png])\<rparr>"

text \<open>
  Lower-casing of the ASCII letters, every other character left as it is.  On a string of
  ASCII characters this is what \<^verbatim>\<open>toLowerCase\<close> gives; it stands for \<^verbatim>\<open>toLowerCase\<close> in the
  scenarios below, whose strings are ASCII, and nowhere else.
\<close>

definition ascii_toLowerCase_char :: "char \<Rightarrow> char" where
  "ascii_toLowerCase_char c =
     (if 65 \<le> (of_char c :: nat) \<and> (of_char c :: nat) \<le> 90
      then char_of ((of_char c :: nat) + 32) else c)"

definition ascii_toLowerCase :: "string \<Rightarrow> string" where
  "ascii_toLowerCase s = map ascii_toLowerCase_char s"

text \<open>Pickers as a builder makes them: single-select, one static button.\<close>

definition file_picker :: FilePicker where
  "file_picker = build (fst (addButton choose_button (new_FilePickerBuilder ''Pick a file'')))"

definition directory_picker :: FilePicker where
  "directory_picker =
     build (fst (allowDirectories True (fst (addButton choose_button
       (new_FilePickerBuilder ''Pick a folder'')))))"

definition multi_picker :: FilePicker where
  "multi_picker =
     build (fst (setMultiSelect True (fst (addButton choose_button
       (new_FilePickerBuilder ''Pick files'')))))"

definition start_picker :: FilePicker where
  "start_picker =
     build (fst (startAt ''/start'' (fst (addButton choose_button
       (new_FilePickerBuilder ''Pick a file'')))))"

definition image_picker :: FilePicker where
  "image_picker =
     build (fst (setMimeTypeFilter [''image/*''] (fst (addButton choose_button
       (new_FilePickerBuilder ''Pick an image'')))))"

text \<open>The state of scenario A: the three entries listed, hidden files not shown.\<close>

definition scenario_A :: State where
  "scenario_A = (initial_state Map.empty)\<lparr>files := [git_folder, readme_md, photo_png]\<rparr>"

text \<open>
  The same listing with an entry in capitals, hidden files shown, and a query in capitals.
\<close>

definition photo_PNG :: Node where
  "photo_PNG = \<lparr>basename = ''Photo.PNG'', ftype = File, mime = Some ''image/png'', path = ''/Photo.PNG''\<rparr>"

definition scenario_query :: State where
  "scenario_query =
     (initial_state Map.empty)\<lparr>files := [git_folder, readme_md, photo_png, photo_PNG],
       showHiddenFiles := True, filterString := ''PHOTO''\<rparr>"

section \<open>Properties\<close>

lemma startsWith_prefix: "startsWith s p = prefix p s"
  by (induction s p rule: startsWith.induct) auto

lemma includes_sublist: "includes_str s q = sublist q s"
  by (induction s) (auto simp: startsWith_prefix sublist_Cons_right)

lemma filteredFiles_isVisible:
  "filteredFiles lower matcher props s =
     filter (isVisible lower matcher (showHiddenFiles s) (props_mimetypeFilter props)
               (filterString s) (props_filterFn props)) (files s)"
  unfolding filteredFiles_def isVisible_def hasSupportedMime_def Let_def
  by (auto simp: startsWith_prefix includes_sublist split: option.splits intro!: filter_cong)

lemma filteredFiles_steps:
  "filteredFiles lower matcher props s =
     keepAccepted (props_filterFn props) (keepMatching lower (filterString s)
       (dropUnsupported matcher (props_mimetypeFilter props)
         (dropHidden (showHiddenFiles s) (files s))))"
  unfolding filteredFiles_def keepAccepted_def keepMatching_def dropUnsupported_def
    dropHidden_def hasSupportedMime_def Let_def
  by (auto simp: startsWith_prefix includes_sublist split: option.splits intro!: filter_cong)

lemma run_append: "run env props (es @ es') s = run env props es' (run env props es s)"
  by (induction es arbitrary: s) simp_all



lemma selectedFiles_set_currentPath: "selectedFiles (set_currentPath props p s) = []"
  by (simp add: set_currentPath_def Let_def)

subsection \<open>The filter pipeline\<close>

text \<open>
  C2: the visible entries are the listing after four filters, in this order: without the
  entries whose basename starts with a dot unless hidden files are shown; without the
  entries that are no folder and have no mime type of a non-empty allow-list; with only the
  entries whose basename contains the non-empty query, ignoring case; with only the entries
  the caller's predicate accepts, if there is one.  All four act as one conjunction on each
  entry.  Ignoring case: two queries with the same lower-casing show the same entries, and
  with hidden files shown and no allow-list the query \<^verbatim>\<open>PHOTO\<close> shows \<^verbatim>\<open>photo.png\<close> and
  \<^verbatim>\<open>Photo.PNG\<close> of \<^verbatim>\<open>.git\<close>, \<^verbatim>\<open>readme.md\<close>, \<^verbatim>\<open>photo.png\<close>, \<^verbatim>\<open>Photo.PNG\<close>, whenever the
  lower-casing takes these five strings to their lower-case forms.  In scenario A (\<^verbatim>\<open>.git\<close>,
  \<^verbatim>\<open>readme.md\<close>, \<^verbatim>\<open>photo.png\<close>; hidden files not shown; allow-list \<^verbatim>\<open>image/*\<close>) only
  \<^verbatim>\<open>photo.png\<close> is visible.
\<close>

theorem filteredFiles_pipeline:
  "filteredFiles lower matcher props s =
     keepAccepted (props_filterFn props) (keepMatching lower (filterString s)
       (dropUnsupported matcher (props_mimetypeFilter props)
         (dropHidden (showHiddenFiles s) (files s))))
   \<and> filteredFiles lower matcher props s =
     filter (isVisible lower matcher (showHiddenFiles s) (props_mimetypeFilter props)
               (filterString s) (props_filterFn props)) (files s)
   \<and> (lower q = lower q' \<and> q \<noteq> [] \<and> q' \<noteq> [] \<longrightarrow>
        filteredFiles lower matcher props (s\<lparr>filterString := q\<rparr>) =
        filteredFiles lower matcher props (s\<lparr>filterString := q'\<rparr>))
   \<and> (lower ''PHOTO'' = ''photo'' \<and> lower ''.git'' = ''.git''
        \<and> lower ''readme.md'' = ''readme.md'' \<and> lower ''photo.png'' = ''photo.png''
        \<and> lower ''Photo.PNG'' = ''photo.png'' \<longrightarrow>
        map basename (filteredFiles lower matcher (withDefaults (pick_props file_picker))
          scenario_query) = [''photo.png'', ''Photo.PNG''])
   \<and> map basename (filteredFiles lower isSupportedMimeType
        (withDefaults (pick_props image_picker)) scenario_A) = [''photo.png'']"
proof (intro conjI impI)
  show "filteredFiles lower matcher props s =
     keepAccepted (props_filterFn props) (keepMatching lower (filterString s)
       (dropUnsupported matcher (props_mimetypeFilter props)
         (dropHidden (showHiddenFiles s) (files s))))"
    by (rule filteredFiles_steps)
next
  show "filteredFiles lower matcher props s =
     filter (isVisible lower matcher (showHiddenFiles s) (props_mimetypeFilter props)
               (filterString s) (props_filterFn props)) (files s)"
    by (rule filteredFiles_isVisible)
next
  assume "lower q = lower q' \<and> q \<noteq> [] \<and> q' \<noteq> []"
  then show "filteredFiles lower matcher props (s\<lparr>filterString := q\<rparr>) =
        filteredFiles lower matcher props (s\<lparr>filterString := q'\<rparr>)"
    by (auto simp: filteredFiles_isVisible isVisible_def intro!: filter_cong)
next
  assume "lower ''PHOTO'' = ''photo'' \<and> lower ''.git'' = ''.git''
        \<and> lower ''readme.md'' = ''readme.md'' \<and> lower ''photo.png'' = ''photo.png''
        \<and> lower ''Photo.PNG'' = ''photo.png''"
  then show "map basename (filteredFiles lower matcher (withDefaults (pick_props file_picker))
          scenario_query) = [''photo.png'', ''Photo.PNG'']"
    by (simp add: filteredFiles_def file_picker_def scenario_query_def git_folder_def
        readme_md_def photo_png_def photo_PNG_def build_def new_FilePicker_def
        new_FilePickerBuilder_def addButton_def withDefaults_def pick_props_def
        initial_state_def)
next
  show "map basename (filteredFiles lower isSupportedMimeType
        (withDefaults (pick_props image_picker)) scenario_A) = [''photo.png'']"
    by (simp add: filteredFiles_def isSupportedMimeType_def matchesPattern_def endsWith_def
        image_picker_def setMimeTypeFilter_def scenario_A_def git_folder_def readme_md_def
      photo_png_def build_def new_FilePicker_def new_FilePickerBuilder_def addButton_def
      withDefaults_def pick_props_def initial_state_def)
qed

theorem filteredFiles_pipeline_witness:
  "ascii_toLowerCase ''PHOTO'' = ''photo'' \<and> ascii_toLowerCase ''.git'' = ''.git''
   \<and> ascii_toLowerCase ''readme.md'' = ''readme.md''
   \<and> ascii_toLowerCase ''photo.png'' = ''photo.png''
   \<and> ascii_toLowerCase ''Photo.PNG'' = ''photo.png''
   \<and> map basename (filteredFiles ascii_toLowerCase isSupportedMimeType
        (withDefaults (pick_props file_picker)) scenario_query) = [''photo.png'', ''Photo.PNG'']
   \<and> filteredFiles ascii_toLowerCase isSupportedMimeType
        (withDefaults (pick_props file_picker)) (scenario_query\<lparr>filterString := ''photo''\<rparr>)
      = [photo_png, photo_PNG]
   \<and> filteredFiles ascii_toLowerCase isSupportedMimeType
        (withDefaults (pick_props image_picker)) scenario_A =
      keepAccepted None (keepMatching ascii_toLowerCase [] (dropUnsupported isSupportedMimeType
        [''image/*''] (dropHidden False [git_folder, readme_md, photo_png])))
   \<and> dropHidden False [git_folder, readme_md, photo_png] = [readme_md, photo_png]
   \<and> dropUnsupported isSupportedMimeType [''image/*''] [readme_md, photo_png] = [photo_png]"
proof -
  have lower: "ascii_toLowerCase ''PHOTO'' = ''photo'' \<and> ascii_toLowerCase ''.git'' = ''.git''
      \<and> ascii_toLowerCase ''readme.md'' = ''readme.md''
      \<and> ascii_toLowerCase ''photo.png'' = ''photo.png''
      \<and> ascii_toLowerCase ''Photo.PNG'' = ''photo.png''"
    by code_simp
  have lower': "ascii_toLowerCase ''photo'' = ''photo''"
    by code_simp
  have query: "filteredFiles ascii_toLowerCase isSupportedMimeType
        (withDefaults (pick_props file_picker)) (scenario_query\<lparr>filterString := ''photo''\<rparr>)
      = [photo_png, photo_PNG]"
    using lower lower'
    by (simp add: filteredFiles_def file_picker_def scenario_query_def git_folder_def
        readme_md_def photo_png_def photo_PNG_def build_def new_FilePicker_def
        new_FilePickerBuilder_def addButton_def withDefaults_def pick_props_def
        initial_state_def)
  show ?thesis
    using lower query
      filteredFiles_pipeline [of ascii_toLowerCase isSupportedMimeType
        "withDefaults (pick_props image_picker)" scenario_A "''PHOTO''" "''photo''"]
      filteredFiles_pipeline [of ascii_toLowerCase isSupportedMimeType
        "withDefaults (pick_props file_picker)" scenario_query "''PHOTO''" "''photo''"]
    by (simp add: dropHidden_def dropUnsupported_def hasSupportedMime_def
        isSupportedMimeType_def matchesPattern_def endsWith_def image_picker_def setMimeTypeFilter_def scenario_A_def git_folder_def readme_md_def
      photo_png_def build_def new_FilePicker_def new_FilePickerBuilder_def addButton_def
      withDefaults_def pick_props_def initial_state_def)
qed

text \<open>
  C9: the filter pipeline is idempotent: filtering the visible entries again, under the same
  criteria, gives the visible entries.
\<close>

theorem filteredFiles_idempotent:
  "filteredFiles lower matcher props (s\<lparr>files := filteredFiles lower matcher props s\<rparr>) =
     filteredFiles lower matcher props s"
  by (simp add: filteredFiles_isVisible)

theorem filteredFiles_idempotent_witness:
  "filteredFiles ascii_toLowerCase isSupportedMimeType (withDefaults (pick_props image_picker))
     (scenario_A\<lparr>files := filteredFiles ascii_toLowerCase isSupportedMimeType
        (withDefaults (pick_props image_picker)) scenario_A\<rparr>)
   = [photo_png]"
proof -
  have "filteredFiles ascii_toLowerCase isSupportedMimeType
      (withDefaults (pick_props image_picker)) scenario_A = [photo_png]"
    by (simp add: filteredFiles_def isSupportedMimeType_def matchesPattern_def endsWith_def
        image_picker_def setMimeTypeFilter_def scenario_A_def git_folder_def readme_md_def
      photo_png_def build_def new_FilePicker_def new_FilePickerBuilder_def addButton_def
      withDefaults_def pick_props_def initial_state_def)
  then show ?thesis
    using filteredFiles_idempotent
      [of ascii_toLowerCase isSupportedMimeType "withDefaults (pick_props image_picker)"
        scenario_A]
    by simp
qed

subsection \<open>Navigation\<close>

text \<open>
  C4: the selection is empty right after every navigation: the setter of the current path
  resets the selected files, so after any sequence of events that ends with a navigation
  (from the breadcrumbs or from the file list) nothing is selected.
\<close>

theorem selection_empty_after_navigation:
  "selectedFiles (set_currentPath props p s) = []
   \<and> selectedFiles (run env props (es @ [BreadcrumbsUpdatePath p]) s) = []
   \<and> selectedFiles (run env props (es @ [FileListUpdatePath p]) s) = []"
  by (simp add: run_append selectedFiles_set_currentPath)

theorem selection_empty_after_navigation_witness:
  "selectedFiles (run dav (withDefaults (pick_props multi_picker))
      [UpdateSelectedFiles [readme_md, photo_png]] (initial_state Map.empty))
     = [readme_md, photo_png]
   \<and> selectedFiles (run dav (withDefaults (pick_props multi_picker))
      ([UpdateSelectedFiles [readme_md, photo_png]] @ [FileListUpdatePath ''/Documents''])
      (initial_state Map.empty)) = []"
  using selection_empty_after_navigation
    [of "withDefaults (pick_props multi_picker)" "''/Documents''"
      "initial_state Map.empty" dav "[UpdateSelectedFiles [readme_md, photo_png]]"]
  by simp

subsection \<open>The builder\<close>

text \<open>
  C10: the picker that \<^verbatim>\<open>build\<close> makes has no container, also after \<^verbatim>\<open>setContainer\<close>, since
  \<^verbatim>\<open>build\<close> does not hand the builder's container to the constructor; so the component of
  a built picker gets the default container \<^verbatim>\<open>body\<close>.
\<close>

theorem build_container:
  "picker_container (build this) = None
   \<and> picker_container (build (fst (setContainer c this))) = None
   \<and> props_container (withDefaults (pick_props (build this))) = ''body''
   \<and> props_container (withDefaults (pick_props (build (fst (setContainer c this))))) = ''body''"
  by (simp add: build_def new_FilePicker_def withDefaults_def pick_props_def)

theorem build_container_witness:
  "builder_container (fst (setContainer ''#app'' (new_FilePickerBuilder ''Pick a file'')))
     = Some ''#app''
   \<and> picker_container (build (fst (setContainer ''#app''
        (new_FilePickerBuilder ''Pick a file'')))) = None
   \<and> props_container (withDefaults (pick_props (build (fst (setContainer ''#app''
        (new_FilePickerBuilder ''Pick a file'')))))) = ''body''"
  using build_container [of "new_FilePickerBuilder ''Pick a file''" "''#app''"]
  by (simp add: setContainer_def)

subsection \<open>The current path across views\<close>

lemma or_else_Some: "p \<noteq> [] \<Longrightarrow> or_else (Some p) d = p"
  by (simp add: or_else_def)

text \<open>
  C5: while the view is Favorites or Recent the current path is \<^verbatim>\<open>/\<close>; switching back to
  Files gives the path navigated to in this session again, or the caller's initial path if
  none was navigated, or else the persisted last path (\<^verbatim>\<open>/\<close> if there is none).  The paths
  are non-empty strings: an empty one is falsy in the chain of \<^verbatim>\<open>||\<close>.
\<close>

theorem currentPath_across_views:
  "(currentView s = Favorites \<or> currentView s = Recent \<longrightarrow> currentPath props s = ''/'')
   \<and> currentPath props (run env props [UpdateCurrentView v, UpdateCurrentView Files] s)
       = or_else (navigatedPath s) (or_else (props_path props) (savedPath s))
   \<and> (p \<noteq> [] \<longrightarrow>
        currentPath props (run env props
          [BreadcrumbsUpdatePath p, UpdateCurrentView v, UpdateCurrentView Files] s) = p)
   \<and> (p \<noteq> [] \<longrightarrow>
        currentPath props (run env props
          [FileListUpdatePath p, UpdateCurrentView v, UpdateCurrentView Files] s) = p)
   \<and> currentPath props (run env props [UpdateCurrentView v, UpdateCurrentView Files]
        (initial_state storage))
       = or_else (props_path props) (or_else (storage LastPath) ''/'')"
  by (auto simp: currentPath_def set_currentPath_def Let_def or_else_Some initial_state_def
      or_else_def)

theorem currentPath_across_views_witness:
  "currentPath (withDefaults (pick_props start_picker))
     (run dav (withDefaults (pick_props start_picker))
        [FileListUpdatePath ''/Documents'', UpdateCurrentView Favorites] (initial_state Map.empty))
     = ''/''
   \<and> currentPath (withDefaults (pick_props start_picker))
     (run dav (withDefaults (pick_props start_picker))
        [FileListUpdatePath ''/Documents'', UpdateCurrentView Favorites, UpdateCurrentView Files]
        (initial_state Map.empty))
     = ''/Documents''
   \<and> currentPath (withDefaults (pick_props start_picker))
     (run dav (withDefaults (pick_props start_picker))
        [UpdateCurrentView Favorites, UpdateCurrentView Files]
        (initial_state (Map.empty(LastPath \<mapsto> ''/saved''))))
     = ''/start''
   \<and> currentPath (withDefaults (pick_props file_picker))
     (run dav (withDefaults (pick_props file_picker))
        [UpdateCurrentView Favorites, UpdateCurrentView Files]
        (initial_state (Map.empty(LastPath \<mapsto> ''/saved''))))
     = ''/saved''"
  using currentPath_across_views
    [of "run dav (withDefaults (pick_props start_picker))
        [FileListUpdatePath ''/Documents'', UpdateCurrentView Favorites] (initial_state Map.empty)"
      "withDefaults (pick_props start_picker)" dav Favorites "''/Documents''" Map.empty]
    currentPath_across_views
    [of "initial_state Map.empty"
      "withDefaults (pick_props start_picker)" dav Favorites "''/Documents''"
      "Map.empty(LastPath \<mapsto> ''/saved'')"]
    currentPath_across_views
    [of "initial_state Map.empty"
      "withDefaults (pick_props file_picker)" dav Favorites "''/Documents''"
      "Map.empty(LastPath \<mapsto> ''/saved'')"]
  by (simp add: start_picker_def file_picker_def startAt_def build_def new_FilePicker_def new_FilePickerBuilder_def addButton_def
      withDefaults_def pick_props_def initial_state_def or_else_def)

subsection \<open>The persisted last path\<close>

text \<open>
  C8, as stated: every time the current path is set, the new path is stored under the key.
  It is not: the picker started at \<^verbatim>\<open>/start\<close> navigates to \<^verbatim>\<open>/Documents\<close>, the current path
  is \<^verbatim>\<open>/Documents\<close>, and nothing is stored.
\<close>

theorem lastPath_not_written_counterexample:
  "currentPath (withDefaults (pick_props start_picker))
     (set_currentPath (withDefaults (pick_props start_picker)) ''/Documents''
        (initial_state Map.empty)) = ''/Documents''
   \<and> sessionStorage (set_currentPath (withDefaults (pick_props start_picker)) ''/Documents''
        (initial_state Map.empty)) LastPath = None"
  by (simp add: currentPath_def set_currentPath_def or_else_def start_picker_def startAt_def build_def new_FilePicker_def new_FilePickerBuilder_def addButton_def
      withDefaults_def pick_props_def initial_state_def)

text \<open>
  C8, amended: the value under the one key is read when the session starts (\<^verbatim>\<open>/\<close> if there
  is none) and is the current path as long as nothing was navigated and the caller gave no
  initial path.  Setting the current path stores the new path under that key, and changes
  nothing else of the storage, when the caller gave no initial path; when the caller gave
  one, the storage is left as it is.
\<close>

theorem lastPath_persisted:
  "savedPath (initial_state storage) = or_else (storage LastPath) ''/''
   \<and> currentPath props (initial_state storage)
       = or_else (props_path props) (or_else (storage LastPath) ''/'')
   \<and> (props_path props = None \<longrightarrow>
        sessionStorage (set_currentPath props p s) = (sessionStorage s)(LastPath \<mapsto> p))
   \<and> (props_path props \<noteq> None \<longrightarrow>
        sessionStorage (set_currentPath props p s) = sessionStorage s)"
  by (simp add: initial_state_def currentPath_def set_currentPath_def Let_def or_else_def)

theorem lastPath_persisted_witness:
  "props_path (withDefaults (pick_props file_picker)) = None
   \<and> sessionStorage (set_currentPath (withDefaults (pick_props file_picker)) ''/Documents''
        (initial_state Map.empty)) LastPath = Some ''/Documents''
   \<and> props_path (withDefaults (pick_props start_picker)) \<noteq> None
   \<and> sessionStorage (set_currentPath (withDefaults (pick_props start_picker)) ''/Documents''
        (initial_state Map.empty)) = Map.empty
   \<and> currentPath (withDefaults (pick_props file_picker))
        (initial_state (Map.empty(LastPath \<mapsto> ''/saved''))) = ''/saved''"
  using lastPath_persisted
    [of Map.empty "withDefaults (pick_props file_picker)" "''/Documents''" "initial_state Map.empty"]
    lastPath_persisted
    [of Map.empty "withDefaults (pick_props start_picker)" "''/Documents''" "initial_state Map.empty"]
    lastPath_persisted
    [of "Map.empty(LastPath \<mapsto> ''/saved'')" "withDefaults (pick_props file_picker)"]
  by (simp add: start_picker_def file_picker_def startAt_def build_def new_FilePicker_def new_FilePickerBuilder_def addButton_def
      withDefaults_def pick_props_def initial_state_def or_else_def)

subsection \<open>How a session ends\<close>












subsection \<open>Confirming the current directory\<close>

text \<open>
  C3: a click on a button with an empty selection in a picker that allows directories makes
  the entry looked up for the current path the selection, and the promise resolves to its
  path.  The code looks the entry up and waits for it before it emits the close event.
  After navigating to \<^verbatim>\<open>/Documents\<close> and clicking the button, the callback is suspended at
  the lookup of \<^verbatim>\<open>/Documents\<close> and the promise is pending; when the dialog then reports that
  it is closed, the promise is rejected, and the lookup that succeeds afterwards changes
  nothing.  Only when nothing closes the dialog before the lookup succeeds is the promise
  resolved to \<^verbatim>\<open>/Documents\<close>.
\<close>

theorem closed_during_lookup_rejects:
  "map snd (awaitingGetFile (run dav (withDefaults (pick_props directory_picker))
      [FileListUpdatePath ''/Documents'', Click 0] (initial_state Map.empty))) = [''/Documents'']
   \<and> pick dav Map.empty directory_picker [FileListUpdatePath ''/Documents'', Click 0] = None
   \<and> pick dav Map.empty directory_picker
        [FileListUpdatePath ''/Documents'', Click 0, UpdateOpen False] =
      Some Rejected_FilePickerClosed
   \<and> pick dav Map.empty directory_picker
        [FileListUpdatePath ''/Documents'', Click 0, UpdateOpen False,
         GetFileSettled 0 (Inr documents_folder)] =
      Some Rejected_FilePickerClosed
   \<and> pick dav Map.empty directory_picker
        [FileListUpdatePath ''/Documents'', Click 0, GetFileSettled 0 (Inr documents_folder)] =
      Some (Resolved_path ''/Documents'')"
  by (simp add: pick_def button_callback_def getFile_settled_def callback_emit_def
      handleClose_def onClose_def first_def dialogButtons_def currentPath_def
      set_currentPath_def or_else_def directory_picker_def allowDirectories_def
      choose_button_def documents_folder_def build_def new_FilePicker_def
      new_FilePickerBuilder_def addButton_def withDefaults_def pick_props_def
      initial_state_def)

subsection \<open>Creating a folder\<close>

lemma onCreateFolder_created:
  "createDirectory env (currentPath props s) name = Inr () \<Longrightarrow>
   loadFiles env (currentView s) (currentPath props s) = Inr listing \<Longrightarrow>
   onCreateFolder env props name s =
     (s\<lparr>files := listing\<rparr>,
      [EmitOnEventBus ''files:node:created''
         (first (filter (\<lambda>file. basename file = name) listing))])"
  by (simp add: onCreateFolder_def)

lemma onCreateFolder_failed:
  "createDirectory env (currentPath props s) name = Inl e \<Longrightarrow>
   onCreateFolder env props name s =
     (s, [ConsoleWarn ''Could not create new folder'',
          ShowError ''Could not create the new folder''])"
  by (simp add: onCreateFolder_def)

text \<open>
  C6: after the directory is created and the listing is loaded again, the notification
  carries the entry of that name in the new listing, and none is sent when there is no
  such entry.  The code sends one all the same: creating \<^verbatim>\<open>New Folder\<close> where the new
  listing has only \<^verbatim>\<open>readme.md\<close> and \<^verbatim>\<open>photo.png\<close> emits \<^verbatim>\<open>files:node:created\<close> with an
  undefined node.
\<close>

theorem onCreateFolder_emits_undefined:
  "onCreateFolder dav (withDefaults (pick_props file_picker)) ''New Folder''
     (initial_state Map.empty)
     = ((initial_state Map.empty)\<lparr>files := [readme_md, photo_png]\<rparr>,
        [EmitOnEventBus ''files:node:created'' None])"
  by (simp add: onCreateFolder_def first_def file_picker_def dav_def readme_md_def photo_png_def build_def new_FilePicker_def new_FilePickerBuilder_def addButton_def
      withDefaults_def pick_props_def initial_state_def)

subsection \<open>Overwriting the buttons of the builder\<close>

text \<open>
  C7: overwriting a button factory by \<^verbatim>\<open>addButton\<close> and overwriting added buttons by
  \<^verbatim>\<open>setButtonFactory\<close> each log a warning.  In the code only the first does:
  \<^verbatim>\<open>setButtonFactory\<close> after \<^verbatim>\<open>addButton\<close> writes nothing to the console, while \<^verbatim>\<open>addButton\<close>
  after \<^verbatim>\<open>setButtonFactory\<close> writes its warning.
\<close>

theorem setButtonFactory_no_warning:
  "snd (setButtonFactory move_factory (fst (addButton choose_button
         (new_FilePickerBuilder ''Move'')))) = []
   \<and> snd (addButton choose_button (fst (setButtonFactory move_factory
         (new_FilePickerBuilder ''Move''))))
       = [''FilePicker buttons were set to factory, now overwritten with button object.'']"
  by (simp add: setButtonFactory_def addButton_def new_FilePickerBuilder_def)

end
